theory Spec2Isabelle
  imports Main "HOL-Library.Word"
begin

section \<open>The webhook text-to-speech entity (tts.py)\<close>

text \<open>
  A shallow embedding of \<^verbatim>\<open>custom_components/webhook_conversation/tts.py\<close>:
  the construction of \<^verbatim>\<open>WebhookConversationTextToSpeechEntity\<close>, its three
  operations, and the platform set-up loop. Exceptions are values of \<open>py_error\<close>;
  a function that may raise returns \<open>py_error + 'a\<close>, with \<open>Inl\<close> the exception.
\<close>

subsection \<open>Python values\<close>

type_synonym bytes = "8 word list"

text \<open>\<^verbatim>\<open>homeassistant.components.tts.Voice\<close>: a dataclass of two strings.\<close>

datatype voice = Voice (voice_id: string) (name: string)

text \<open>
  The values that an \<^verbatim>\<open>Any\<close>-typed dictionary entry of the module holds:
  the options of a call, the JSON payload, the default options.
\<close>

datatype pyval =
    PNone
  | PBool bool
  | PInt int
  | PStr string
  | PList "pyval list"
  | PVoice voice

text \<open>Python's truth value of an object, as \<^verbatim>\<open>if x\<close> and \<^verbatim>\<open>x or y\<close> test it.\<close>

fun truthy :: "pyval \<Rightarrow> bool" where
  "truthy PNone = False"
| "truthy (PBool b) = b"
| "truthy (PInt i) = (i \<noteq> 0)"
| "truthy (PStr s) = (s \<noteq> [])"
| "truthy (PList xs) = (xs \<noteq> [])"
| "truthy (PVoice v) = True"

datatype py_error =
    KeyError string
  | IndexError
  | HomeAssistantError string
  | ClientError string
  | TimeoutError

text \<open>\<^verbatim>\<open>str(n)\<close> for an integer, which an f-string applies to \<^verbatim>\<open>response.status\<close>.\<close>

definition digit_char :: "nat \<Rightarrow> char" where
  "digit_char d = ''0123456789'' ! d"

fun str_nat :: "nat \<Rightarrow> string" where
  "str_nat n = (if n < 10 then [digit_char n] else str_nat (n div 10) @ [digit_char (n mod 10)])"

declare str_nat.simps [simp del]

definition str_int :: "int \<Rightarrow> string" where
  "str_int i = (if i < 0 then CHR ''-'' # str_nat (nat (- i)) else str_nat (nat i))"

text \<open>What an f-string prints for an optional string: \<^verbatim>\<open>None\<close> prints as its name.\<close>

definition str_opt :: "string option \<Rightarrow> string" where
  "str_opt v = (case v of None \<Rightarrow> ''None'' | Some s \<Rightarrow> s)"

text \<open>
  \<^verbatim>\<open>s.split(sep)\<close> for a separator of one character: the pieces between the
  separators, empty pieces included, so the result is never the empty list.
\<close>

fun split :: "char \<Rightarrow> string \<Rightarrow> string list" where
  "split sep [] = [[]]"
| "split sep (c # cs) =
     (if c = sep then [] # split sep cs
      else (case split sep cs of [] \<Rightarrow> [[c]] | w # ws \<Rightarrow> (c # w) # ws))"

subsection \<open>Configuration and the base entity\<close>

text \<open>
  The names imported from \<^verbatim>\<open>.const\<close> are parameters of the model: the keys of the
  subentry data and of the entry options, and the default timeout.
\<close>

record const =
  CONF_SUPPORTED_LANGUAGES :: string
  CONF_VOICES :: string
  CONF_TIMEOUT :: string
  DEFAULT_TIMEOUT :: int

text \<open>\<^verbatim>\<open>homeassistant.components.tts.ATTR_VOICE\<close>.\<close>

definition ATTR_VOICE :: string where
  "ATTR_VOICE = ''voice''"

text \<open>
  A subentry of the configuration entry. Its data holds lists of strings under string
  keys, which is what the annotations of \<^verbatim>\<open>__init__\<close> take it to be.
\<close>

record config_subentry =
  subentry_id :: string
  subentry_type :: string
  title :: string
  data :: "string \<rightharpoonup> string list"

record config_entry =
  subentries :: "config_subentry list"
  options :: "string \<rightharpoonup> int"

type_synonym payload = "string \<rightharpoonup> pyval"

text \<open>
  What \<^verbatim>\<open>WebhookConversationBaseEntity\<close> gives the entity: the configuration entry,
  the device information, the webhook URL, the authentication headers
  (\<^verbatim>\<open>_get_auth_headers()\<close>) and the hook \<^verbatim>\<open>_apply_custom_request_fields\<close>, a
  function from payloads to payloads. The class lives in \<^verbatim>\<open>entity.py\<close>; its
  results are fields here, and any hook is allowed.
\<close>

record base_entity =
  base_config_entry :: config_entry
  device_info :: "(string \<times> string option) list option"
  webhook_url :: string
  get_auth_headers :: "(string \<times> string) list"
  apply_custom_request_fields :: "payload \<Rightarrow> payload"

subsection \<open>The entity and its construction\<close>

text \<open>
  The attributes of the entity. \<open>attr_supported_options\<close> and \<open>voices\<close> start as
  \<open>None\<close>, their class-level defaults. \<open>cache_default_options\<close> is the slot in which
  \<^verbatim>\<open>cached_property\<close> keeps the value of \<^verbatim>\<open>default_options\<close> once it has been
  computed.
\<close>

record tts_entity =
  base :: base_entity
  attr_has_entity_name :: bool
  attr_name :: string
  attr_supported_languages :: "string list"
  attr_default_language :: string
  attr_supported_options :: "string list option"
  voices :: "voice list option"
  cache_default_options :: "(string \<rightharpoonup> pyval) option option"

text \<open>Lines 59-63: the device's name if it has a non-empty one, else the subentry's title.\<close>

definition entity_name :: "base_entity \<Rightarrow> config_subentry \<Rightarrow> string" where
  "entity_name b subentry =
     (case device_info b of
        None \<Rightarrow> title subentry
      | Some info \<Rightarrow>
          if info = [] then title subentry
          else (case map_of info ''name'' of
                  Some (Some n) \<Rightarrow> if n \<noteq> [] then n else title subentry
                | _ \<Rightarrow> title subentry))"

text \<open>
  \<^verbatim>\<open>__init__\<close>, lines 56-71, after \<^verbatim>\<open>super().__init__\<close> has produced \<open>b\<close>.
  \<^verbatim>\<open>subentry.data[CONF_SUPPORTED_LANGUAGES]\<close> raises \<^verbatim>\<open>KeyError\<close> on a missing
  key and \<^verbatim>\<open>supported_languages[0]\<close> raises \<^verbatim>\<open>IndexError\<close> on an empty list;
  \<^verbatim>\<open>subentry.data.get(CONF_VOICES)\<close> is falsy when the key is missing or the list
  is empty.
\<close>

definition init :: "const \<Rightarrow> base_entity \<Rightarrow> config_subentry \<Rightarrow> py_error + tts_entity" where
  "init K b subentry =
     (case data subentry (CONF_SUPPORTED_LANGUAGES K) of
        None \<Rightarrow> Inl (KeyError (CONF_SUPPORTED_LANGUAGES K))
      | Some supported_languages \<Rightarrow>
          (case supported_languages of
             [] \<Rightarrow> Inl IndexError
           | first # _ \<Rightarrow>
               let self = \<lparr> base = b,
                            attr_has_entity_name = False,
                            attr_name = entity_name b subentry,
                            attr_supported_languages = supported_languages,
                            attr_default_language = first,
                            attr_supported_options = None,
                            voices = None,
                            cache_default_options = None \<rparr>
               in (case data subentry (CONF_VOICES K) of
                     None \<Rightarrow> Inr self
                   | Some vs \<Rightarrow>
                       if vs = [] then Inr self
                       else Inr (self \<lparr> attr_supported_options := Some [ATTR_VOICE],
                                       voices := Some (map (\<lambda>v. Voice v v) vs) \<rparr>))))"

subsection \<open>Platform set-up\<close>

text \<open>
  \<^verbatim>\<open>async_setup_entry\<close>, lines 31-44. \<open>mk\<close> is the base-class constructor applied to
  the entry and a subentry. The result is the list of calls made to
  \<^verbatim>\<open>async_add_entities\<close> (the entities and the \<^verbatim>\<open>config_subentry_id\<close>), and the
  exception that ended the loop, if one did: nothing in the function catches it.
\<close>

type_synonym added = "(tts_entity list \<times> string) list"

fun setup_loop ::
  "const \<Rightarrow> (config_subentry \<Rightarrow> base_entity) \<Rightarrow> config_subentry list \<Rightarrow> added
     \<Rightarrow> added \<times> py_error option" where
  "setup_loop K mk [] acc = (acc, None)"
| "setup_loop K mk (subentry # rest) acc =
     (if subentry_type subentry \<noteq> ''tts'' then setup_loop K mk rest acc
      else (case init K (mk subentry) subentry of
              Inl err \<Rightarrow> (acc, Some err)
            | Inr entity \<Rightarrow> setup_loop K mk rest (acc @ [([entity], subentry_id subentry)])))"

definition async_setup_entry ::
  "const \<Rightarrow> (config_entry \<Rightarrow> config_subentry \<Rightarrow> base_entity) \<Rightarrow> config_entry
     \<Rightarrow> added \<times> py_error option" where
  "async_setup_entry K base_init entry = setup_loop K (base_init entry) (subentries entry) []"

subsection \<open>Voices and default options\<close>

text \<open>\<^verbatim>\<open>async_get_supported_voices\<close>, lines 73-76.\<close>

definition async_get_supported_voices :: "tts_entity \<Rightarrow> string \<Rightarrow> voice list option" where
  "async_get_supported_voices self language = voices self"

text \<open>The body of \<^verbatim>\<open>default_options\<close>, lines 81-85.\<close>

definition default_options_body :: "tts_entity \<Rightarrow> (string \<rightharpoonup> pyval) option" where
  "default_options_body self =
     (case voices self of
        None \<Rightarrow> None
      | Some [] \<Rightarrow> None
      | Some (v # _) \<Rightarrow> Some [ATTR_VOICE \<mapsto> PVoice v])"

text \<open>
  \<^verbatim>\<open>default_options\<close> as a \<^verbatim>\<open>cached_property\<close>: the first read runs the body and
  stores its value on the entity, later reads return the stored value.
\<close>

definition default_options :: "tts_entity \<Rightarrow> (string \<rightharpoonup> pyval) option \<times> tts_entity" where
  "default_options self =
     (case cache_default_options self of
        Some v \<Rightarrow> (v, self)
      | None \<Rightarrow>
          let v = default_options_body self
          in (v, self \<lparr> cache_default_options := Some v \<rparr>))"

subsection \<open>Synthesis\<close>

text \<open>
  The arguments of \<^verbatim>\<open>session.post\<close>, and the response as the function reads it:
  \<open>response_headers\<close> is \<^verbatim>\<open>response.headers.get\<close> and \<open>body\<close> is what
  \<^verbatim>\<open>await response.read()\<close> returns.
\<close>

record request =
  url :: string
  json :: payload
  headers :: "(string \<times> string) list"
  timeout :: int

record response =
  status :: int
  reason :: "string option"
  response_headers :: "string \<rightharpoonup> string"
  body :: bytes

text \<open>
  The webhook, seen from the entity: a request gets a response, or the transport raises
  (no connection, a timeout, a body that cannot be read or a payload that cannot be
  serialised). The function catches no exception, so such a call ends as that exception.
\<close>

type_synonym webhook = "request \<Rightarrow> py_error + response"

text \<open>
  Lines 97-103 of \<^verbatim>\<open>async_get_tts_audio\<close>: the payload as assembled from the
  arguments. \<^verbatim>\<open>options.get(ATTR_VOICE)\<close> is \<^verbatim>\<open>None\<close> on a missing key, and
  the walrus test takes the value only when it is truthy.
\<close>

definition tts_payload :: "string \<Rightarrow> string \<Rightarrow> (string \<rightharpoonup> pyval) \<Rightarrow> payload" where
  "tts_payload message language opts =
     (let payload = [''text'' \<mapsto> PStr message, ''language'' \<mapsto> PStr language]
      in (case opts ATTR_VOICE of
            None \<Rightarrow> payload
          | Some v \<Rightarrow> if truthy v then payload(''voice'' \<mapsto> v) else payload))"

text \<open>
  Lines 92-111: the timeout, the headers, the payload after the hook, and with them the
  arguments of the one \<^verbatim>\<open>session.post\<close>. \<^verbatim>\<open>options.get(CONF_TIMEOUT,
  DEFAULT_TIMEOUT)\<close> takes the default on a missing key only.
\<close>

definition tts_request ::
  "const \<Rightarrow> tts_entity \<Rightarrow> string \<Rightarrow> string \<Rightarrow> (string \<rightharpoonup> pyval) \<Rightarrow> request" where
  "tts_request K self message language opts =
     (let timeout_v = (case options (base_config_entry (base self)) (CONF_TIMEOUT K) of
                         None \<Rightarrow> DEFAULT_TIMEOUT K
                       | Some t \<Rightarrow> t);
          hdrs = get_auth_headers (base self);
          payload = tts_payload message language opts;
          payload = apply_custom_request_fields (base self) payload
      in \<lparr> url = webhook_url (base self), json = payload, headers = hdrs,
           timeout = timeout_v \<rparr>)"

text \<open>
  \<^verbatim>\<open>async_get_tts_audio\<close>, lines 87-130. The result is the request that was posted
  together with what the call returns or raises.
\<close>

definition async_get_tts_audio ::
  "const \<Rightarrow> webhook \<Rightarrow> tts_entity \<Rightarrow> string \<Rightarrow> string \<Rightarrow> (string \<rightharpoonup> pyval)
     \<Rightarrow> request \<times> (py_error + string \<times> bytes)" where
  "async_get_tts_audio K session_post self message language opts =
     (let req = tts_request K self message language opts
      in (req,
          case session_post req of
            Inl err \<Rightarrow> Inl err
          | Inr resp \<Rightarrow>
              if status resp \<noteq> 200 then
                Inl (HomeAssistantError
                       (''Error contacting TTS webhook: HTTP '' @ str_int (status resp)
                          @ '' - '' @ str_opt (reason resp)))
              else
                let response_bytes = body resp;
                    content_type = response_headers resp ''Content-Type''
                in (case content_type of
                      None \<Rightarrow>
                        Inl (HomeAssistantError
                               (''Invalid Content-Type in TTS webhook response: ''
                                  @ str_opt content_type))
                    | Some ct \<Rightarrow>
                        if ct = [] \<or> CHR ''/'' \<notin> set ct then
                          Inl (HomeAssistantError
                                 (''Invalid Content-Type in TTS webhook response: ''
                                    @ str_opt content_type))
                        else
                          let audio_format = last (split CHR ''/'' ct)
                          in if audio_format \<notin> set [''wav'', ''mp3''] then
                               Inl (HomeAssistantError
                                      (''Unsupported audio format in TTS webhook response: ''
                                         @ audio_format))
                             else Inr (audio_format, response_bytes))))"

subsection \<open>Sequences of operations\<close>

text \<open>
  The three operations as calls on the entity, and the entity each leaves behind. The
  only assignment any of them makes to the entity is the cache slot that
  \<^verbatim>\<open>cached_property\<close> fills on the first read of \<^verbatim>\<open>default_options\<close>.
\<close>

datatype call =
    GetSupportedVoices string
  | DefaultOptions
  | GetTtsAudio string string "string \<rightharpoonup> pyval"

fun run :: "tts_entity \<Rightarrow> call \<Rightarrow> tts_entity" where
  "run self (GetSupportedVoices language) = self"
| "run self DefaultOptions = snd (default_options self)"
| "run self (GetTtsAudio message language opts) = self"

subsection \<open>Sample values\<close>

text \<open>A configuration, two hooks, a webhook and an entity on which the results are run.\<close>

definition sample_const :: const where
  "sample_const = \<lparr> CONF_SUPPORTED_LANGUAGES = ''supported_languages'',
                     CONF_VOICES = ''voices'', CONF_TIMEOUT = ''timeout'',
                     DEFAULT_TIMEOUT = 30 \<rparr>"

definition sample_subentry :: "string list option \<Rightarrow> string list option \<Rightarrow> config_subentry" where
  "sample_subentry langs vs =
     \<lparr> subentry_id = ''s1'', subentry_type = ''tts'', title = ''Webhook TTS'',
       data = (Map.empty(''supported_languages'' := langs))(''voices'' := vs) \<rparr>"

definition sample_entry :: "config_subentry list \<Rightarrow> config_entry" where
  "sample_entry ss = \<lparr> subentries = ss, options = Map.empty \<rparr>"

definition keep_fields :: "payload \<Rightarrow> payload" where
  "keep_fields p = p"

definition drop_voice :: "payload \<Rightarrow> payload" where
  "drop_voice p = p(''voice'' := None)"

definition sample_base :: "(payload \<Rightarrow> payload) \<Rightarrow> base_entity" where
  "sample_base hook =
     \<lparr> base_config_entry = sample_entry [], device_info = None,
       webhook_url = ''http://localhost/tts'', get_auth_headers = [],
       apply_custom_request_fields = hook \<rparr>"

definition sample_base_init :: "config_entry \<Rightarrow> config_subentry \<Rightarrow> base_entity" where
  "sample_base_init entry subentry = sample_base keep_fields"

definition sample_entity :: "(payload \<Rightarrow> payload) \<Rightarrow> tts_entity" where
  "sample_entity hook =
     \<lparr> base = sample_base hook, attr_has_entity_name = False, attr_name = ''Webhook TTS'',
       attr_supported_languages = [''en''], attr_default_language = ''en'',
       attr_supported_options = None, voices = None, cache_default_options = None \<rparr>"

definition sample_options :: "string \<rightharpoonup> pyval" where
  "sample_options = [''voice'' \<mapsto> PStr ''v1'']"

definition answers :: "response \<Rightarrow> webhook" where
  "answers resp req = Inr resp"

definition sample_response :: "int \<Rightarrow> string option \<Rightarrow> string option \<Rightarrow> bytes \<Rightarrow> response" where
  "sample_response st rs ct bs =
     \<lparr> status = st, reason = rs,
       response_headers = Map.empty(''Content-Type'' := ct), body = bs \<rparr>"

section \<open>Properties\<close>

subsection \<open>Splitting a string\<close>

lemma split_not_Nil: "split sep s \<noteq> []"
  by (induction s) (auto split: list.splits)

lemma split_no_sep: "sep \<notin> set s \<Longrightarrow> split sep s = [s]"
  by (induction s) auto

lemma split_append: "split sep (pre @ sep # sub) = split sep pre @ split sep sub"
proof (induction pre)
  case Nil
  show ?case by simp
next
  case (Cons c pre)
  obtain w ws where w: "split sep pre = w # ws"
    using split_not_Nil [of sep pre] by (cases "split sep pre") auto
  show ?case using Cons w by simp
qed

lemma last_split_append: "sep \<notin> set sub \<Longrightarrow> last (split sep (pre @ sep # sub)) = sub"
  by (simp add: split_append split_no_sep)

lemma last_split_decomp:
  assumes "sep \<in> set s"
  shows "\<exists>pre. s = pre @ sep # last (split sep s) \<and> sep \<notin> set (last (split sep s))"
proof -
  from assms obtain pre sub where s: "s = pre @ sep # sub" and n: "sep \<notin> set sub"
    by (meson split_list_last)
  then show ?thesis using last_split_append[OF n, of pre] by auto
qed

subsection \<open>Construction\<close>

lemma init_Inr:
  assumes "data subentry (CONF_SUPPORTED_LANGUAGES K) = Some (l # ls)"
  shows "init K b subentry =
     Inr \<lparr> base = b, attr_has_entity_name = False, attr_name = entity_name b subentry,
           attr_supported_languages = l # ls, attr_default_language = l,
           attr_supported_options =
             (case data subentry (CONF_VOICES K) of
                None \<Rightarrow> None | Some vs \<Rightarrow> if vs = [] then None else Some [ATTR_VOICE]),
           voices =
             (case data subentry (CONF_VOICES K) of
                None \<Rightarrow> None
              | Some vs \<Rightarrow> if vs = [] then None else Some (map (\<lambda>v. Voice v v) vs)),
           cache_default_options = None \<rparr>"
  using assms by (simp add: init_def Let_def split: option.splits)

lemma init_Inr_D:
  assumes "init K b subentry = Inr self"
  shows "\<exists>l ls. data subentry (CONF_SUPPORTED_LANGUAGES K) = Some (l # ls)"
  using assms by (auto simp: init_def split: option.splits list.splits)

lemma setup_loop_fails:
  assumes "subentry \<in> set ss" and "subentry_type subentry = ''tts''"
    and "init K (mk subentry) subentry = Inl e"
  shows "\<exists>err. snd (setup_loop K mk ss acc) = Some err"
  using assms
proof (induction ss arbitrary: acc)
  case Nil
  then show ?case by simp
next
  case (Cons s ss)
  show ?case
  proof (cases "s = subentry")
    case True
    with Cons.prems show ?thesis by simp
  next
    case False
    with Cons.prems have "subentry \<in> set ss" by simp
    from Cons.IH [OF this Cons.prems(2,3)] show ?thesis
      by (simp split: sum.splits)
  qed
qed

lemma run_fields:
  "voices (run self c) = voices self
   \<and> attr_supported_options (run self c) = attr_supported_options self
   \<and> attr_supported_languages (run self c) = attr_supported_languages self
   \<and> attr_default_language (run self c) = attr_default_language self
   \<and> attr_name (run self c) = attr_name self
   \<and> base (run self c) = base self"
  by (cases c) (auto simp: default_options_def Let_def split: option.splits)

lemma foldl_run_fields:
  "voices (foldl run self cs) = voices self
   \<and> attr_supported_options (foldl run self cs) = attr_supported_options self
   \<and> attr_supported_languages (foldl run self cs) = attr_supported_languages self
   \<and> attr_default_language (foldl run self cs) = attr_default_language self
   \<and> attr_name (foldl run self cs) = attr_name self
   \<and> base (foldl run self cs) = base self"
  by (induction cs arbitrary: self) (simp_all add: run_fields)

subsection \<open>The request and the response\<close>

lemma snd_async_get_tts_audio_ok:
  assumes "session_post (tts_request K self message language opts) = Inr resp"
    and "status resp = 200"
    and "response_headers resp ''Content-Type'' = Some ct"
    and "CHR ''/'' \<in> set ct"
  shows "snd (async_get_tts_audio K session_post self message language opts)
     = (let audio_format = last (split CHR ''/'' ct)
        in if audio_format = ''wav'' \<or> audio_format = ''mp3''
           then Inr (audio_format, body resp)
           else Inl (HomeAssistantError
                  (''Unsupported audio format in TTS webhook response: '' @ audio_format)))"
proof -
  from assms(4) have "ct \<noteq> []" by auto
  with assms show ?thesis
    by (simp add: async_get_tts_audio_def Let_def)
qed

subsection \<open>The claims\<close>

text \<open>
  Claim C1, as the code has it. The payload assembled from the arguments of a synthesis
  call always has the keys \<^verbatim>\<open>text\<close> (the message) and \<^verbatim>\<open>language\<close>, has
  \<^verbatim>\<open>voice\<close> exactly when the options hold a truthy voice value (and then that
  value), and has no other key. It is assembled first and handed to the custom-fields
  hook; what the hook returns is, unchanged, the payload of the request that is posted.
\<close>

theorem payload_through_hook:
  "json (fst (async_get_tts_audio K session_post self message language opts))
     = apply_custom_request_fields (base self) (tts_payload message language opts)
   \<and> tts_payload message language opts ''text'' = Some (PStr message)
   \<and> tts_payload message language opts ''language'' = Some (PStr language)
   \<and> tts_payload message language opts ''voice''
       = (case opts ATTR_VOICE of None \<Rightarrow> None | Some v \<Rightarrow> if truthy v then Some v else None)
   \<and> dom (tts_payload message language opts) \<subseteq> {''text'', ''language'', ''voice''}"
  by (auto simp: async_get_tts_audio_def tts_request_def tts_payload_def Let_def ATTR_VOICE_def
      split: option.splits if_splits)

text \<open>
  The theorem at a hook that deletes the \<^verbatim>\<open>voice\<close> key: the assembled payload has
  the voice, the posted one has not, and the text is still there.
\<close>

theorem payload_through_hook_witness:
  "json (fst (async_get_tts_audio sample_const (answers (sample_response 200 None None []))
           (sample_entity drop_voice) ''hi'' ''en'' sample_options)) ''voice'' = None
   \<and> json (fst (async_get_tts_audio sample_const (answers (sample_response 200 None None []))
           (sample_entity drop_voice) ''hi'' ''en'' sample_options)) ''text'' = Some (PStr ''hi'')
   \<and> tts_payload ''hi'' ''en'' sample_options ''voice'' = Some (PStr ''v1'')"
  using payload_through_hook [of sample_const "answers (sample_response 200 None None [])"
      "sample_entity drop_voice" "''hi''" "''en''" sample_options]
  by (simp add: sample_entity_def sample_base_def drop_voice_def sample_options_def ATTR_VOICE_def)

text \<open>
  Claim C1 as stated speaks of the payload that is sent: it would contain \<^verbatim>\<open>voice\<close>
  whenever the options hold a truthy voice. With a hook that deletes the key, the options
  hold the truthy voice \<^verbatim>\<open>v1\<close> and the posted payload has no \<^verbatim>\<open>voice\<close>.
\<close>

theorem sent_payload_voice_counterexample:
  "sample_options ATTR_VOICE = Some (PStr ''v1'') \<and> truthy (PStr ''v1'')
   \<and> json (fst (async_get_tts_audio sample_const (answers (sample_response 200 None None []))
           (sample_entity drop_voice) ''hi'' ''en'' sample_options)) ''voice'' = None"
  by (simp add: async_get_tts_audio_def tts_request_def tts_payload_def Let_def ATTR_VOICE_def
        sample_entity_def sample_base_def drop_voice_def sample_options_def)

text \<open>
  Claim C2. When the webhook answers with status 200 and a Content-Type whose part after
  the slash is \<^verbatim>\<open>wav\<close> or \<^verbatim>\<open>mp3\<close>, the call returns that subtype together with
  the bytes of the response body, unchanged.
\<close>

theorem audio_returned:
  assumes "session_post (tts_request K self message language opts) = Inr resp"
    and "status resp = 200"
    and "response_headers resp ''Content-Type'' = Some (pre @ ''/'' @ fmt)"
    and "fmt = ''wav'' \<or> fmt = ''mp3''"
  shows "snd (async_get_tts_audio K session_post self message language opts)
           = Inr (fmt, body resp)"
proof -
  from assms(4) have n: "CHR ''/'' \<notin> set fmt" by auto
  have l: "last (split CHR ''/'' (pre @ ''/'' @ fmt)) = fmt"
    using last_split_append [OF n, of pre] by simp
  have "CHR ''/'' \<in> set (pre @ ''/'' @ fmt)" by simp
  from snd_async_get_tts_audio_ok [where session_post = session_post, OF assms(1-3) this] l assms(4)
  show ?thesis by (simp add: Let_def)
qed

text \<open>Status 200, \<^verbatim>\<open>Content-Type: audio/mp3\<close> and the body \<^verbatim>\<open>b"ABC"\<close>.\<close>

theorem audio_returned_witness:
  "snd (async_get_tts_audio sample_const
          (answers (sample_response 200 (Some ''OK'') (Some ''audio/mp3'') [0x41, 0x42, 0x43]))
          (sample_entity keep_fields) ''hi'' ''en'' Map.empty)
     = Inr (''mp3'', [0x41, 0x42, 0x43])"
  using audio_returned [of "answers (sample_response 200 (Some ''OK'') (Some ''audio/mp3'') [0x41, 0x42, 0x43])"
      sample_const "sample_entity keep_fields" "''hi''" "''en''" Map.empty
      "sample_response 200 (Some ''OK'') (Some ''audio/mp3'') [0x41, 0x42, 0x43]" "''audio''" "''mp3''"]
  by (simp add: answers_def sample_response_def)

text \<open>
  Claim C3. When the response has status 200 and a Content-Type that contains a slash, the
  audio format is the part of the Content-Type after the slash (after the last one, when
  there are several: the part holds no slash itself). If that part is neither
  \<^verbatim>\<open>wav\<close> nor \<^verbatim>\<open>mp3\<close>, the call fails with an error that names it; otherwise
  the call returns it with the body.
\<close>

theorem unsupported_format:
  assumes "session_post (tts_request K self message language opts) = Inr resp"
    and "status resp = 200"
    and "response_headers resp ''Content-Type'' = Some ct"
    and "CHR ''/'' \<in> set ct"
  shows "\<exists>pre sub. ct = pre @ ''/'' @ sub \<and> CHR ''/'' \<notin> set sub
           \<and> sub = last (split CHR ''/'' ct)
           \<and> (sub \<noteq> ''wav'' \<and> sub \<noteq> ''mp3'' \<longrightarrow>
                snd (async_get_tts_audio K session_post self message language opts)
                  = Inl (HomeAssistantError
                      (''Unsupported audio format in TTS webhook response: '' @ sub)))
           \<and> (sub = ''wav'' \<or> sub = ''mp3'' \<longrightarrow>
                snd (async_get_tts_audio K session_post self message language opts)
                  = Inr (sub, body resp))"
proof -
  from last_split_decomp [OF assms(4)] obtain pre
    where d: "ct = pre @ CHR ''/'' # last (split CHR ''/'' ct)"
      and n: "CHR ''/'' \<notin> set (last (split CHR ''/'' ct))" by blast
  from d have d': "ct = pre @ ''/'' @ last (split CHR ''/'' ct)" by simp
  show ?thesis
    using snd_async_get_tts_audio_ok [where session_post = session_post, OF assms] d' n
    by (auto simp: Let_def)
qed

text \<open>Status 200 and \<^verbatim>\<open>Content-Type: text/plain\<close>: the error names \<^verbatim>\<open>plain\<close>.\<close>

theorem unsupported_format_witness:
  "snd (async_get_tts_audio sample_const
          (answers (sample_response 200 (Some ''OK'') (Some ''text/plain'') []))
          (sample_entity keep_fields) ''hi'' ''en'' Map.empty)
     = Inl (HomeAssistantError ''Unsupported audio format in TTS webhook response: plain'')"
  using unsupported_format [of "answers (sample_response 200 (Some ''OK'') (Some ''text/plain'') [])"
      sample_const "sample_entity keep_fields" "''hi''" "''en''" Map.empty
      "sample_response 200 (Some ''OK'') (Some ''text/plain'') []" "''text/plain''"]
  by (simp add: answers_def sample_response_def)

text \<open>
  Claim C4. When the webhook answers with a status other than 200, the call fails, with no
  audio, and the message of the error carries the status code in decimal and the reason
  phrase.
\<close>

theorem http_error:
  assumes "session_post (tts_request K self message language opts) = Inr resp"
    and "status resp \<noteq> 200"
  shows "snd (async_get_tts_audio K session_post self message language opts)
           = Inl (HomeAssistantError
               (''Error contacting TTS webhook: HTTP '' @ str_int (status resp) @ '' - ''
                  @ str_opt (reason resp)))"
  using assms by (simp add: async_get_tts_audio_def Let_def)

text \<open>Status 404 with the reason \<^verbatim>\<open>Not Found\<close>.\<close>

theorem http_error_witness:
  "snd (async_get_tts_audio sample_const
          (answers (sample_response 404 (Some ''Not Found'') (Some ''audio/mp3'') [0x41]))
          (sample_entity keep_fields) ''hi'' ''en'' Map.empty)
     = Inl (HomeAssistantError ''Error contacting TTS webhook: HTTP 404 - Not Found'')"
  using http_error [of "answers (sample_response 404 (Some ''Not Found'') (Some ''audio/mp3'') [0x41])"
      sample_const "sample_entity keep_fields" "''hi''" "''en''" Map.empty
      "sample_response 404 (Some ''Not Found'') (Some ''audio/mp3'') [0x41]"]
  by (simp add: answers_def sample_response_def str_int_def str_nat.simps digit_char_def str_opt_def)

text \<open>
  Claim C5. When the response has status 200 and its Content-Type header is missing, empty
  or without a slash, the call fails, with no audio, and the message of the error carries
  the header value as it was read (\<^verbatim>\<open>None\<close> for a missing header).
\<close>

theorem invalid_content_type:
  assumes "session_post (tts_request K self message language opts) = Inr resp"
    and "status resp = 200"
    and "response_headers resp ''Content-Type'' = None
         \<or> response_headers resp ''Content-Type'' = Some ''''
         \<or> (\<exists>ct. response_headers resp ''Content-Type'' = Some ct \<and> CHR ''/'' \<notin> set ct)"
  shows "snd (async_get_tts_audio K session_post self message language opts)
           = Inl (HomeAssistantError
               (''Invalid Content-Type in TTS webhook response: ''
                  @ str_opt (response_headers resp ''Content-Type'')))"
  using assms by (auto simp: async_get_tts_audio_def Let_def)

text \<open>Status 200 with no Content-Type header, and with the header \<^verbatim>\<open>audio\<close>.\<close>

theorem invalid_content_type_witness:
  "snd (async_get_tts_audio sample_const
          (answers (sample_response 200 (Some ''OK'') None [0x41]))
          (sample_entity keep_fields) ''hi'' ''en'' Map.empty)
     = Inl (HomeAssistantError ''Invalid Content-Type in TTS webhook response: None'')
   \<and> snd (async_get_tts_audio sample_const
          (answers (sample_response 200 (Some ''OK'') (Some ''audio'') [0x41]))
          (sample_entity keep_fields) ''hi'' ''en'' Map.empty)
     = Inl (HomeAssistantError ''Invalid Content-Type in TTS webhook response: audio'')"
  using invalid_content_type [of "answers (sample_response 200 (Some ''OK'') None [0x41])"
      sample_const "sample_entity keep_fields" "''hi''" "''en''" Map.empty
      "sample_response 200 (Some ''OK'') None [0x41]"]
    invalid_content_type [of "answers (sample_response 200 (Some ''OK'') (Some ''audio'') [0x41])"
      sample_const "sample_entity keep_fields" "''hi''" "''en''" Map.empty
      "sample_response 200 (Some ''OK'') (Some ''audio'') [0x41]"]
  by (simp add: answers_def sample_response_def str_opt_def)

text \<open>
  Claim C6. For every non-empty configured list of supported languages the construction
  gives an entity whose default language is the first element of the list and whose
  supported languages are the list.
\<close>

theorem default_language_first:
  assumes "data subentry (CONF_SUPPORTED_LANGUAGES K) = Some langs" and "langs \<noteq> []"
  shows "\<exists>self. init K b subentry = Inr self
           \<and> attr_default_language self = hd langs
           \<and> attr_supported_languages self = langs"
proof -
  from assms(2) obtain l ls where "langs = l # ls" by (cases langs) auto
  with assms(1) init_Inr [of subentry K l ls b] show ?thesis by simp
qed

text \<open>The languages \<^verbatim>\<open>["cs", "en"]\<close>.\<close>

theorem default_language_first_witness:
  "\<exists>self. init sample_const (sample_base keep_fields)
             (sample_subentry (Some [''cs'', ''en'']) None) = Inr self
     \<and> attr_default_language self = ''cs''
     \<and> attr_supported_languages self = [''cs'', ''en'']"
  using default_language_first [of "sample_subentry (Some [''cs'', ''en'']) None" sample_const
      "[''cs'', ''en'']" "sample_base keep_fields"]
  by (simp add: sample_subentry_def sample_const_def)

text \<open>
  Claim C7. On a constructed entity \<^verbatim>\<open>async_get_supported_voices\<close> gives the same
  result for any two languages: the configured voices, each as the pair of its
  identifier with itself, or nothing when no voice (or an empty list) is configured.
\<close>

theorem supported_voices_static:
  assumes "init K b subentry = Inr self"
  shows "async_get_supported_voices self language1 = async_get_supported_voices self language2
       \<and> async_get_supported_voices self language1 =
           (case data subentry (CONF_VOICES K) of
              None \<Rightarrow> None
            | Some vs \<Rightarrow> if vs = [] then None else Some (map (\<lambda>v. Voice v v) vs))"
proof -
  from init_Inr_D [OF assms] obtain l ls
    where "data subentry (CONF_SUPPORTED_LANGUAGES K) = Some (l # ls)" by blast
  from init_Inr [OF this, of b] assms show ?thesis
    by (auto simp: async_get_supported_voices_def)
qed

text \<open>The voices \<^verbatim>\<open>["a", "b"]\<close>, asked for \<^verbatim>\<open>en\<close> and for \<^verbatim>\<open>fr\<close>.\<close>

theorem supported_voices_static_witness:
  "\<exists>self. init sample_const (sample_base keep_fields)
             (sample_subentry (Some [''en'', ''fr'']) (Some [''a'', ''b''])) = Inr self
     \<and> async_get_supported_voices self ''en'' = Some [Voice ''a'' ''a'', Voice ''b'' ''b'']
     \<and> async_get_supported_voices self ''fr'' = Some [Voice ''a'' ''a'', Voice ''b'' ''b'']"
proof -
  have i: "init sample_const (sample_base keep_fields)
             (sample_subentry (Some [''en'', ''fr'']) (Some [''a'', ''b'']))
           = Inr (projr (init sample_const (sample_base keep_fields)
             (sample_subentry (Some [''en'', ''fr'']) (Some [''a'', ''b'']))))"
    by (simp add: init_def sample_subentry_def sample_const_def)
  show ?thesis
    using supported_voices_static [OF i, of "''en''" "''fr''"]
      supported_voices_static [OF i, of "''fr''" "''en''"]
    by (simp add: init_def sample_subentry_def sample_const_def async_get_supported_voices_def)
qed

text \<open>
  Claim C8. On a constructed entity \<^verbatim>\<open>default_options\<close> is nothing when no voice
  is configured, and otherwise a mapping whose only entry, under the voice key, is the
  first configured voice (the \<^verbatim>\<open>Voice\<close> made of its identifier twice). A second read,
  answered from the cache, gives the same value.
\<close>

theorem default_options_first_voice:
  assumes "init K b subentry = Inr self"
  shows "fst (default_options self) =
           (case data subentry (CONF_VOICES K) of
              None \<Rightarrow> None
            | Some [] \<Rightarrow> None
            | Some (v # vs) \<Rightarrow> Some [ATTR_VOICE \<mapsto> PVoice (Voice v v)])
       \<and> fst (default_options (snd (default_options self))) = fst (default_options self)"
proof -
  from init_Inr_D [OF assms] obtain l ls
    where "data subentry (CONF_SUPPORTED_LANGUAGES K) = Some (l # ls)" by blast
  from init_Inr [OF this, of b] assms show ?thesis
    by (auto simp: default_options_def default_options_body_def Let_def
        split: option.splits list.splits)
qed

text \<open>The voices \<^verbatim>\<open>["x"]\<close>, and no voices.\<close>

theorem default_options_first_voice_witness:
  "(\<exists>self. init sample_const (sample_base keep_fields)
             (sample_subentry (Some [''en'']) (Some [''x''])) = Inr self
     \<and> fst (default_options self) = Some [''voice'' \<mapsto> PVoice (Voice ''x'' ''x'')])
   \<and> (\<exists>self. init sample_const (sample_base keep_fields)
             (sample_subentry (Some [''en'']) None) = Inr self
     \<and> fst (default_options self) = None)"
proof -
  have i: "init sample_const (sample_base keep_fields)
             (sample_subentry (Some [''en'']) (Some [''x'']))
           = Inr (projr (init sample_const (sample_base keep_fields)
             (sample_subentry (Some [''en'']) (Some [''x'']))))"
    by (simp add: init_def sample_subentry_def sample_const_def)
  have j: "init sample_const (sample_base keep_fields)
             (sample_subentry (Some [''en'']) None)
           = Inr (projr (init sample_const (sample_base keep_fields)
             (sample_subentry (Some [''en'']) None)))"
    by (simp add: init_def sample_subentry_def sample_const_def)
  show ?thesis
    using default_options_first_voice [OF i] default_options_first_voice [OF j]
    by (simp add: init_def sample_subentry_def sample_const_def ATTR_VOICE_def
          default_options_def default_options_body_def)
qed

text \<open>
  Claim C9. The construction raises when the supported-languages entry is missing
  (\<^verbatim>\<open>KeyError\<close>) or is the empty list (\<^verbatim>\<open>IndexError\<close>), and succeeds on every
  non-empty list. The exception is not caught: when a text-to-speech subentry of the
  configuration entry has such data, \<^verbatim>\<open>async_setup_entry\<close> itself ends with an
  exception.
\<close>

theorem construction_fails:
  "(data subentry (CONF_SUPPORTED_LANGUAGES K) = None \<longrightarrow>
      init K b subentry = Inl (KeyError (CONF_SUPPORTED_LANGUAGES K)))
   \<and> (data subentry (CONF_SUPPORTED_LANGUAGES K) = Some [] \<longrightarrow>
      init K b subentry = Inl IndexError)
   \<and> (\<forall>langs. data subentry (CONF_SUPPORTED_LANGUAGES K) = Some langs \<longrightarrow> langs \<noteq> [] \<longrightarrow>
        (\<exists>self. init K b subentry = Inr self))
   \<and> (subentry \<in> set (subentries entry) \<longrightarrow> subentry_type subentry = ''tts'' \<longrightarrow>
        (data subentry (CONF_SUPPORTED_LANGUAGES K) = None
           \<or> data subentry (CONF_SUPPORTED_LANGUAGES K) = Some []) \<longrightarrow>
        (\<exists>err. snd (async_setup_entry K base_init entry) = Some err))"
proof (intro conjI impI allI)
  assume "data subentry (CONF_SUPPORTED_LANGUAGES K) = None"
  then show "init K b subentry = Inl (KeyError (CONF_SUPPORTED_LANGUAGES K))"
    by (simp add: init_def)
next
  assume "data subentry (CONF_SUPPORTED_LANGUAGES K) = Some []"
  then show "init K b subentry = Inl IndexError"
    by (simp add: init_def)
next
  fix langs
  assume "data subentry (CONF_SUPPORTED_LANGUAGES K) = Some langs" and "langs \<noteq> []"
  then show "\<exists>self. init K b subentry = Inr self"
    using init_Inr [of subentry K "hd langs" "tl langs" b] by simp
next
  assume m: "subentry \<in> set (subentries entry)" and t: "subentry_type subentry = ''tts''"
    and d: "data subentry (CONF_SUPPORTED_LANGUAGES K) = None
            \<or> data subentry (CONF_SUPPORTED_LANGUAGES K) = Some []"
  from d have "\<exists>e. init K (base_init entry subentry) subentry = Inl e"
    by (auto simp: init_def)
  then obtain e where "init K (base_init entry subentry) subentry = Inl e" ..
  from setup_loop_fails [where mk = "base_init entry", OF m t this]
  show "\<exists>err. snd (async_setup_entry K base_init entry) = Some err"
    by (simp add: async_setup_entry_def)
qed

text \<open>A subentry without languages, one with an empty list and one with \<^verbatim>\<open>["en"]\<close>.\<close>

theorem construction_fails_witness:
  "init sample_const (sample_base keep_fields) (sample_subentry None None)
     = Inl (KeyError ''supported_languages'')
   \<and> init sample_const (sample_base keep_fields) (sample_subentry (Some []) None)
     = Inl IndexError
   \<and> (\<exists>self. init sample_const (sample_base keep_fields) (sample_subentry (Some [''en'']) None)
        = Inr self)
   \<and> (\<exists>err. snd (async_setup_entry sample_const sample_base_init
                (sample_entry [sample_subentry (Some []) None])) = Some err)"
  using construction_fails [of "sample_subentry None None" sample_const "sample_base keep_fields"
          "sample_entry []" sample_base_init]
    construction_fails [of "sample_subentry (Some []) None" sample_const "sample_base keep_fields"
          "sample_entry [sample_subentry (Some []) None]" sample_base_init]
    construction_fails [of "sample_subentry (Some [''en'']) None" sample_const
          "sample_base keep_fields" "sample_entry []" sample_base_init]
  by (simp add: sample_subentry_def sample_const_def sample_entry_def)

text \<open>
  Claim C10. After the construction and after any sequence of operations on the entity,
  the stored voice list is absent or is a non-empty list in which every voice has its
  identifier as its name; it is absent exactly when no voice list or an empty one was
  configured; the voice option is the one supported option exactly when a non-empty voice
  list was configured; and the languages, the default language and the name are those of
  the construction.
\<close>

theorem voices_invariant:
  assumes "init K b subentry = Inr self0"
  shows "(voices (foldl run self0 calls) = None
            \<or> (\<exists>vs. voices (foldl run self0 calls) = Some vs \<and> vs \<noteq> []
                   \<and> (\<forall>v \<in> set vs. voice_id v = name v)))
       \<and> (voices (foldl run self0 calls) = None) =
           (data subentry (CONF_VOICES K) = None \<or> data subentry (CONF_VOICES K) = Some [])
       \<and> attr_supported_options (foldl run self0 calls) =
           (if data subentry (CONF_VOICES K) = None \<or> data subentry (CONF_VOICES K) = Some []
            then None else Some [ATTR_VOICE])
       \<and> attr_supported_languages (foldl run self0 calls) = attr_supported_languages self0
       \<and> attr_default_language (foldl run self0 calls) = attr_default_language self0
       \<and> attr_name (foldl run self0 calls) = attr_name self0"
proof -
  from init_Inr_D [OF assms] obtain l ls
    where "data subentry (CONF_SUPPORTED_LANGUAGES K) = Some (l # ls)" by blast
  from init_Inr [OF this, of b] assms show ?thesis
    by (auto simp: foldl_run_fields split: option.splits)
qed

text \<open>The voices \<^verbatim>\<open>["a", "b"]\<close> and four operations.\<close>

theorem voices_invariant_witness:
  "\<exists>self. init sample_const (sample_base keep_fields)
             (sample_subentry (Some [''en'']) (Some [''a'', ''b''])) = Inr self
     \<and> voices (foldl run self [DefaultOptions, GetSupportedVoices ''en'',
            GetTtsAudio ''hi'' ''en'' sample_options, DefaultOptions])
         = Some [Voice ''a'' ''a'', Voice ''b'' ''b'']
     \<and> attr_supported_options (foldl run self [DefaultOptions, GetSupportedVoices ''en'',
            GetTtsAudio ''hi'' ''en'' sample_options, DefaultOptions])
         = Some [''voice'']"
proof -
  have i: "init sample_const (sample_base keep_fields)
             (sample_subentry (Some [''en'']) (Some [''a'', ''b'']))
           = Inr (projr (init sample_const (sample_base keep_fields)
             (sample_subentry (Some [''en'']) (Some [''a'', ''b'']))))"
    by (simp add: init_def sample_subentry_def sample_const_def)
  show ?thesis
    using voices_invariant [OF i, of "[DefaultOptions, GetSupportedVoices ''en'',
            GetTtsAudio ''hi'' ''en'' sample_options, DefaultOptions]"]
    by (simp add: init_def sample_subentry_def sample_const_def ATTR_VOICE_def
          default_options_def default_options_body_def Let_def)
qed

end
